theory Spec2Isabelle
  imports Complex_Main
begin

section \<open>The fine-tuning bolt of huggingface/base.py\<close>

text \<open>
  \<open>HuggingFaceFineTuner\<close> sequences calls to collaborators (input and output storage, the
  state store, the transformers registry, the subclass' dataset loader, the trainer, the
  hub). The collaborators are not part of the file: they are parameters of the model. Each
  call is recorded as an event, and each collaborator answers a call as a function of the
  whole history of calls made so far (the call itself is the last event of that history),
  either with a value or with an exception.
\<close>

subsection \<open>Python values\<close>

text \<open>
  An exception value: whether its class derives from \<open>Exception\<close> (\<open>KeyboardInterrupt\<close>
  and \<open>SystemExit\<close> do not, and \<open>except Exception\<close> lets them through), and the text
  \<open>str(e)\<close>.
\<close>

datatype py_exn = PyExn (is_Exception: bool) (str_of: string)

datatype pyval = PyBool bool | PyStr string

text \<open>A dict literal, as the list of its items.\<close>

type_synonym pydict = "(string \<times> pyval) list"

text \<open>
  A model or tokenizer object: an identity and its truth value (\<open>if self.model:\<close> asks
  for it; a tokenizer has a \<open>__len__\<close>).
\<close>

datatype obj = Obj (obj_id: nat) (truthy: bool)

type_synonym dataset = nat

record training_arguments =
  ta_output_dir :: string
  ta_num_train_epochs :: int
  ta_per_device_train_batch_size :: int
  ta_kwargs :: pydict

record hub_args =
  hub_repo_id :: "string option"
  hub_commit_message :: "string option"
  hub_token :: "string option"
  hub_private :: bool
  hub_create_pr :: bool

subsection \<open>Calls to collaborators\<close>

datatype event =
    GetAttr string
  | FromPretrained string string
  | CopyFromRemote
  | InputGet
  | LoadDataset string
  | TrainingArguments training_arguments
  | Trainer "obj option" training_arguments "dataset option" "dataset option" "obj option"
  | Train
  | SaveModel
  | Evaluate
  | PushToHub obj hub_args
  | SetState string pydict
  | LogError string
  | LogInfo string

text \<open>
  \<open>GetAttr c\<close> is \<open>getattr(__import__("transformers"), c)\<close>, \<open>FromPretrained c p\<close> the
  call \<open>from_pretrained(p)\<close> on that class, \<open>Trainer m a t e k\<close> the construction
  \<open>Trainer(model=m, args=a, train_dataset=t, eval_dataset=e, tokenizer=k, ...)\<close>.
  \<open>evaluate\<close> answers with the text its result formats to.
\<close>

record env =
  output_folder :: string
  transformers_getattr :: "event list \<Rightarrow> py_exn + unit"
  from_pretrained :: "event list \<Rightarrow> py_exn + obj"
  copy_from_remote :: "event list \<Rightarrow> py_exn + unit"
  input_get :: "event list \<Rightarrow> py_exn + string"
  load_dataset :: "event list \<Rightarrow> py_exn + dataset option"
  new_training_arguments :: "event list \<Rightarrow> py_exn + unit"
  new_trainer :: "event list \<Rightarrow> py_exn + unit"
  train :: "event list \<Rightarrow> py_exn + unit"
  save_model :: "event list \<Rightarrow> py_exn + unit"
  evaluate :: "event list \<Rightarrow> py_exn + string"
  push_to_hub :: "event list \<Rightarrow> py_exn + unit"
  set_state :: "event list \<Rightarrow> py_exn + unit"

subsection \<open>The instance\<close>

text \<open>
  The attributes of \<open>self\<close>. \<open>bolt_id\<close> is \<open>self.id\<close>, \<open>eval_flag\<close> is \<open>self.eval\<close>.
  The attributes that \<open>__init__\<close> does not create are assigned by \<open>fine_tune\<close> before
  any use.
\<close>

record fine_tuner =
  bolt_id :: string
  model_name :: "string option"
  tokenizer_name :: "string option"
  model_class :: "string option"
  tokenizer_class :: "string option"
  eval_flag :: bool
  tokenizer :: "obj option"
  model :: "obj option"
  train_dataset :: "dataset option"
  eval_dataset :: "dataset option"
  output_dir :: string
  num_train_epochs :: int
  per_device_train_batch_size :: int
  hf_repo_id :: "string option"
  hf_commit_message :: "string option"
  hf_token :: "string option"
  hf_private :: bool
  hf_create_pr :: bool

text \<open>The parameters of \<open>fine_tune\<close>.\<close>

record ft_args =
  arg_model_name :: string
  arg_tokenizer_name :: string
  arg_num_train_epochs :: int
  arg_per_device_train_batch_size :: int
  arg_model_class :: string
  arg_tokenizer_class :: string
  arg_eval :: bool
  arg_hf_repo_id :: "string option"
  arg_hf_commit_message :: "string option"
  arg_hf_token :: "string option"
  arg_hf_private :: bool
  arg_hf_create_pr :: bool
  arg_kwargs :: pydict

subsection \<open>Statements that may raise\<close>

text \<open>
  A statement takes the instance and the history of calls, and gives back its outcome
  (\<open>Inl\<close> the exception raised, \<open>Inr\<close> the value), the instance as it leaves it, and the
  calls it made, in order.
\<close>

type_synonym 'a run = "(py_exn + 'a) \<times> fine_tuner \<times> event list"

type_synonym 'a prog = "fine_tuner \<Rightarrow> event list \<Rightarrow> 'a run"

definition outcome :: "'a run \<Rightarrow> py_exn + 'a" where
  "outcome r = fst r"

definition self_after :: "'a run \<Rightarrow> fine_tuner" where
  "self_after r = fst (snd r)"

definition events :: "'a run \<Rightarrow> event list" where
  "events r = snd (snd r)"

definition ret :: "'a \<Rightarrow> 'a prog" where
  "ret x s h = (Inr x, s, [])"

definition raise :: "py_exn \<Rightarrow> 'a prog" where
  "raise e s h = (Inl e, s, [])"

definition bindM :: "'a prog \<Rightarrow> ('a \<Rightarrow> 'b prog) \<Rightarrow> 'b prog" where
  "bindM m f s h =
     (case m s h of
        (Inl e, s1, evs) \<Rightarrow> (Inl e, s1, evs)
      | (Inr x, s1, evs) \<Rightarrow>
          (case f x s1 (h @ evs) of (r, s2, evs2) \<Rightarrow> (r, s2, evs @ evs2)))"

definition call :: "event \<Rightarrow> (event list \<Rightarrow> py_exn + 'a) \<Rightarrow> 'a prog" where
  "call ev f s h = (f (h @ [ev]), s, [ev])"

definition get_self :: "fine_tuner prog" where
  "get_self s h = (Inr s, s, [])"

definition assign :: "(fine_tuner \<Rightarrow> fine_tuner) \<Rightarrow> unit prog" where
  "assign f s h = (Inr (), f s, [])"

text \<open>\<open>try: m except Exception as e: handler e\<close>\<close>

definition try_except :: "'a prog \<Rightarrow> (py_exn \<Rightarrow> 'a prog) \<Rightarrow> 'a prog" where
  "try_except m handler s h =
     (case m s h of
        (Inr x, s1, evs) \<Rightarrow> (Inr x, s1, evs)
      | (Inl e, s1, evs) \<Rightarrow>
          (if is_Exception e
           then (case handler e s1 (h @ evs) of (r, s2, evs2) \<Rightarrow> (r, s2, evs @ evs2))
           else (Inl e, s1, evs)))"

text \<open>\<open>self.log.error(msg); raise\<close>\<close>

definition log_and_reraise :: "string \<Rightarrow> py_exn \<Rightarrow> 'a prog" where
  "log_and_reraise prefix e =
     bindM (call (LogError (prefix @ str_of e)) (\<lambda>h. Inr ())) (\<lambda>_. raise e)"

subsection \<open>Library functions on strings\<close>

text \<open>\<open>str.lower\<close>, on ASCII letters.\<close>

definition lower_char :: "char \<Rightarrow> char" where
  "lower_char c =
     (case map_of (zip ''ABCDEFGHIJKLMNOPQRSTUVWXYZ'' ''abcdefghijklmnopqrstuvwxyz'') c of
        None \<Rightarrow> c
      | Some d \<Rightarrow> d)"

definition lower :: "string \<Rightarrow> string" where
  "lower s = map lower_char s"

text \<open>
  \<open>os.path.join(a, b)\<close> of \<open>posixpath\<close>: a component that starts with the separator
  replaces what came before it.
\<close>

definition os_path_join :: "string \<Rightarrow> string \<Rightarrow> string" where
  "os_path_join a b =
     (if b \<noteq> [] \<and> hd b = CHR ''/'' then b
      else if a = [] \<or> last a = CHR ''/'' then a @ b
      else a @ ''/'' @ b)"

text \<open>\<open>str(x)\<close> of an optional string.\<close>

definition py_str :: "string option \<Rightarrow> string" where
  "py_str x = (case x of None \<Rightarrow> ''None'' | Some s \<Rightarrow> s)"

text \<open>The truth value of an optional string and of an optional object.\<close>

definition truthy_str :: "string option \<Rightarrow> bool" where
  "truthy_str x = (case x of None \<Rightarrow> False | Some s \<Rightarrow> s \<noteq> [])"

definition truthy_obj :: "obj option \<Rightarrow> bool" where
  "truthy_obj x = (case x of None \<Rightarrow> False | Some ob \<Rightarrow> truthy ob)"

definition none_has_no_lower :: py_exn where
  "none_has_no_lower =
     PyExn True ([CHR 0x27] @ ''NoneType'' @ [CHR 0x27] @ '' object has no attribute ''
                 @ [CHR 0x27] @ ''lower'' @ [CHR 0x27])"

subsection \<open>The methods\<close>

text \<open>
  One branch of \<open>load_models\<close>: \<open>self.<name>.lower() == "local"\<close> is evaluated first,
  then the class is looked up, then the argument, then \<open>from_pretrained\<close> is called.
\<close>

definition load_pretrained :: "env \<Rightarrow> string option \<Rightarrow> string option \<Rightarrow> obj prog" where
  "load_pretrained E name cls =
     (case name of
        None \<Rightarrow> raise none_has_no_lower
      | Some n \<Rightarrow>
          (if lower n = ''local''
           then bindM (call (GetAttr (py_str cls)) (transformers_getattr E)) (\<lambda>_.
                bindM (call InputGet (input_get E)) (\<lambda>p.
                call (FromPretrained (py_str cls) (os_path_join p ''/model''))
                     (from_pretrained E)))
           else bindM (call (GetAttr (py_str cls)) (transformers_getattr E)) (\<lambda>_.
                call (FromPretrained (py_str cls) n) (from_pretrained E))))"

definition load_models :: "env \<Rightarrow> unit prog" where
  "load_models E =
     try_except
       (bindM get_self (\<lambda>s.
        bindM (load_pretrained E (model_name s) (model_class s)) (\<lambda>m.
        bindM (assign (\<lambda>s. s\<lparr>model := Some m\<rparr>)) (\<lambda>_.
        bindM (load_pretrained E (tokenizer_name s) (tokenizer_class s)) (\<lambda>t.
        assign (\<lambda>s. s\<lparr>tokenizer := Some t\<rparr>))))))
       (log_and_reraise ''Failed to load model: '')"

definition preprocess_data :: "env \<Rightarrow> unit prog" where
  "preprocess_data E =
     try_except
       (bindM (call CopyFromRemote (copy_from_remote E)) (\<lambda>_.
        bindM (call InputGet (input_get E)) (\<lambda>p1.
        bindM (call InputGet (input_get E)) (\<lambda>p2.
        bindM (call (LoadDataset (os_path_join p1 ''train'')) (load_dataset E)) (\<lambda>d.
        bindM (assign (\<lambda>s. s\<lparr>train_dataset := d\<rparr>)) (\<lambda>_.
        bindM get_self (\<lambda>s.
        if eval_flag s
        then bindM (call (LoadDataset (os_path_join p2 ''eval'')) (load_dataset E)) (\<lambda>d2.
             assign (\<lambda>s. s\<lparr>eval_dataset := d2\<rparr>))
        else ret ())))))))
       (log_and_reraise ''Failed to preprocess data: '')"

definition hub_args_of :: "fine_tuner \<Rightarrow> hub_args" where
  "hub_args_of s =
     \<lparr>hub_repo_id = hf_repo_id s, hub_commit_message = hf_commit_message s,
      hub_token = hf_token s, hub_private = hf_private s, hub_create_pr = hf_create_pr s\<rparr>"

definition push_if_truthy :: "env \<Rightarrow> fine_tuner \<Rightarrow> obj option \<Rightarrow> unit prog" where
  "push_if_truthy E s x =
     (case x of
        None \<Rightarrow> ret ()
      | Some ob \<Rightarrow>
          (if truthy ob then call (PushToHub ob (hub_args_of s)) (push_to_hub E)
           else ret ()))"

definition upload_to_hf_hub :: "env \<Rightarrow> unit prog" where
  "upload_to_hf_hub E =
     try_except
       (bindM get_self (\<lambda>s.
        bindM (push_if_truthy E s (model s)) (\<lambda>_.
        push_if_truthy E s (tokenizer s))))
       (log_and_reraise ''Failed to upload model to huggingface hub: '')"

text \<open>The body of the \<open>try\<close> of \<open>fine_tune\<close>.\<close>

definition fine_tune_body :: "env \<Rightarrow> ft_args \<Rightarrow> unit prog" where
  "fine_tune_body E a =
     bindM (assign (\<lambda>s. s\<lparr>model_name := Some (arg_model_name a),
                          tokenizer_name := Some (arg_tokenizer_name a),
                          output_dir := output_folder E,
                          num_train_epochs := arg_num_train_epochs a,
                          per_device_train_batch_size := arg_per_device_train_batch_size a,
                          model_class := Some (arg_model_class a),
                          tokenizer_class := Some (arg_tokenizer_class a),
                          eval_flag := arg_eval a,
                          hf_repo_id := arg_hf_repo_id a,
                          hf_commit_message := arg_hf_commit_message a,
                          hf_token := arg_hf_token a,
                          hf_private := arg_hf_private a,
                          hf_create_pr := arg_hf_create_pr a\<rparr>)) (\<lambda>_.
     bindM (load_models E) (\<lambda>_.
     bindM (preprocess_data E) (\<lambda>_.
     bindM get_self (\<lambda>s.
     let training_args =
           \<lparr>ta_output_dir = os_path_join (output_dir s) ''model'',
            ta_num_train_epochs = arg_num_train_epochs a,
            ta_per_device_train_batch_size = arg_per_device_train_batch_size a,
            ta_kwargs = arg_kwargs a\<rparr>
     in
     bindM (call (TrainingArguments training_args) (new_training_arguments E)) (\<lambda>_.
     bindM (call (Trainer (model s) training_args (train_dataset s)
                    (if eval_flag s then eval_dataset s else None) (tokenizer s))
                 (new_trainer E)) (\<lambda>_.
     bindM (call Train (train E)) (\<lambda>_.
     bindM (call SaveModel (save_model E)) (\<lambda>_.
     bindM (if eval_flag s
            then bindM (call Evaluate (evaluate E)) (\<lambda>eval_result.
                 call (LogInfo (''Evaluation results: '' @ eval_result)) (\<lambda>h. Inr ()))
            else ret ()) (\<lambda>_.
     if truthy_str (hf_repo_id s) then upload_to_hf_hub E else ret ())))))))))"

definition failure_record :: "py_exn \<Rightarrow> pydict" where
  "failure_record e = [(''success'', PyBool False), (''exception'', PyStr (str_of e))]"

definition success_record :: pydict where
  "success_record = [(''success'', PyBool True)]"

definition fine_tune :: "env \<Rightarrow> ft_args \<Rightarrow> unit prog" where
  "fine_tune E a =
     bindM (try_except (fine_tune_body E a)
              (\<lambda>e. bindM (call (LogError (''Failed to fine tune model: '' @ str_of e))
                             (\<lambda>h. Inr ())) (\<lambda>_.
                    bindM get_self (\<lambda>s.
                    bindM (call (SetState (bolt_id s) (failure_record e)) (set_state E)) (\<lambda>_.
                    raise e)))))
       (\<lambda>_. bindM get_self (\<lambda>s. call (SetState (bolt_id s) success_record) (set_state E)))"

subsection \<open>Metrics\<close>

text \<open>
  \<open>compute_metrics\<close> calls \<open>numpy.argmax\<close> and two functions of scikit-learn. They are
  modelled as documented, on integer class labels, with exact fractions for the floating
  point results; \<open>NaN\<close> is their not-a-number. Scores are of any linearly ordered type.
  The texts of the library's errors are abridged.
\<close>

datatype py_float = Fin rat | NaN

definition value_error :: "string \<Rightarrow> py_exn" where
  "value_error msg = PyExn True msg"

text \<open>The index of the first greatest entry of a row.\<close>

fun argmax_from :: "'a::linorder \<Rightarrow> nat \<Rightarrow> nat \<Rightarrow> 'a list \<Rightarrow> nat" where
  "argmax_from best bi i [] = bi"
| "argmax_from best bi i (x # xs) =
     (if best < x then argmax_from x i (Suc i) xs else argmax_from best bi (Suc i) xs)"

definition argmax_row :: "'a::linorder list \<Rightarrow> int" where
  "argmax_row row = (case row of [] \<Rightarrow> 0 | x # xs \<Rightarrow> int (argmax_from x 0 1 xs))"

text \<open>
  \<open>np.argmax(predictions, axis=1)\<close> on a matrix given by its rows: rows of different
  lengths are no array, and rows without entries have no greatest one.
\<close>

definition np_argmax_axis1 :: "'a::linorder list list \<Rightarrow> py_exn + int list" where
  "np_argmax_axis1 m =
     (if \<not> list_all (\<lambda>row. length row = length (hd m)) m
      then Inl (value_error ''setting an array element with a sequence'')
      else if m \<noteq> [] \<and> hd m = []
      then Inl (value_error ''attempt to get argmax of an empty sequence'')
      else Inr (map argmax_row m))"

definition inconsistent_length :: py_exn where
  "inconsistent_length =
     value_error ''Found input variables with inconsistent numbers of samples''"

definition count_where :: "('a \<Rightarrow> 'b \<Rightarrow> bool) \<Rightarrow> 'a list \<Rightarrow> 'b list \<Rightarrow> nat" where
  "count_where P xs ys = length (filter (\<lambda>(x, y). P x y) (zip xs ys))"

text \<open>\<open>accuracy_score(y_true, y_pred)\<close>: the mean of \<open>y_true == y_pred\<close>.\<close>

definition accuracy_score :: "int list \<Rightarrow> int list \<Rightarrow> py_exn + py_float" where
  "accuracy_score y_true y_pred =
     (if length y_true \<noteq> length y_pred then Inl inconsistent_length
      else if y_true = [] then Inr NaN
      else Inr (Fin (of_nat (count_where (\<lambda>t p. t = p) y_true y_pred)
                     / of_nat (length y_true))))"

text \<open>A quotient of counts, \<open>0\<close> where the denominator is \<open>0\<close> (\<open>zero_division="warn"\<close>).\<close>

definition prf_divide :: "rat \<Rightarrow> rat \<Rightarrow> rat" where
  "prf_divide n d = (if d = 0 then 0 else n / d)"

text \<open>
  \<open>precision_recall_fscore_support(y_true, y_pred, average="binary")\<close>, with the default
  \<open>pos_label=1\<close>: targets with more than two distinct values are multiclass and refused,
  and so are two distinct values neither of which is the positive label. The result is
  (precision, recall, fscore).
\<close>

definition precision_recall_fscore_support ::
    "int list \<Rightarrow> int list \<Rightarrow> py_exn + (py_float \<times> py_float \<times> py_float)" where
  "precision_recall_fscore_support y_true y_pred =
     (if length y_true \<noteq> length y_pred then Inl inconsistent_length
      else let present = remdups (y_true @ y_pred) in
      if length present > 2
      then Inl (value_error ''Target is multiclass but average=binary'')
      else if 1 \<notin> set present \<and> length present \<ge> 2
      then Inl (value_error ''pos_label=1 is not a valid label'')
      else
        let tp_sum = of_nat (count_where (\<lambda>t p. t = 1 \<and> p = 1) y_true y_pred);
            pred_sum = of_nat (length (filter (\<lambda>p. p = 1) y_pred));
            true_sum = of_nat (length (filter (\<lambda>t. t = 1) y_true));
            precision = prf_divide tp_sum pred_sum;
            recall = prf_divide tp_sum true_sum;
            f_score = prf_divide (2 * precision * recall) (precision + recall)
        in Inr (Fin precision, Fin recall, Fin f_score))"

definition bindE :: "py_exn + 'a \<Rightarrow> ('a \<Rightarrow> py_exn + 'b) \<Rightarrow> py_exn + 'b" where
  "bindE m f = (case m of Inl e \<Rightarrow> Inl e | Inr x \<Rightarrow> f x)"

definition compute_metrics ::
    "'a::linorder list list \<times> int list \<Rightarrow> py_exn + (string \<times> py_float) list" where
  "compute_metrics eval_pred =
     (case eval_pred of (predictions, labels) \<Rightarrow>
        bindE (np_argmax_axis1 predictions) (\<lambda>predictions.
        bindE (accuracy_score labels predictions) (\<lambda>acc.
        bindE (precision_recall_fscore_support labels predictions) (\<lambda>prf0.
        bindE (precision_recall_fscore_support labels predictions) (\<lambda>prf1.
        bindE (precision_recall_fscore_support labels predictions) (\<lambda>prf2.
        Inr [(''accuracy'', acc),
             (''precision'', fst prf0),
             (''recall'', fst (snd prf1)),
             (''f1'', snd (snd prf2))]))))))"

text \<open>A value lies in the unit interval; not-a-number lies in no interval.\<close>

definition in_unit :: "py_float \<Rightarrow> bool" where
  "in_unit x = (case x of Fin q \<Rightarrow> 0 \<le> q \<and> q \<le> 1 | NaN \<Rightarrow> False)"

text \<open>
  The standard formulas of binary classification, on the counts of true positives, false
  positives, false negatives and true negatives of predictions against labels, class
  \<open>1\<close> being the positive one.
\<close>

definition true_pos :: "int list \<Rightarrow> int list \<Rightarrow> nat" where
  "true_pos labels preds = count_where (\<lambda>t p. t = 1 \<and> p = 1) labels preds"

definition false_pos :: "int list \<Rightarrow> int list \<Rightarrow> nat" where
  "false_pos labels preds = count_where (\<lambda>t p. t \<noteq> 1 \<and> p = 1) labels preds"

definition false_neg :: "int list \<Rightarrow> int list \<Rightarrow> nat" where
  "false_neg labels preds = count_where (\<lambda>t p. t = 1 \<and> p \<noteq> 1) labels preds"

definition true_neg :: "int list \<Rightarrow> int list \<Rightarrow> nat" where
  "true_neg labels preds = count_where (\<lambda>t p. t \<noteq> 1 \<and> p \<noteq> 1) labels preds"

definition std_accuracy :: "int list \<Rightarrow> int list \<Rightarrow> rat" where
  "std_accuracy labels preds =
     of_nat (true_pos labels preds + true_neg labels preds) / of_nat (length labels)"

definition std_precision :: "int list \<Rightarrow> int list \<Rightarrow> rat" where
  "std_precision labels preds =
     prf_divide (of_nat (true_pos labels preds))
                (of_nat (true_pos labels preds + false_pos labels preds))"

definition std_recall :: "int list \<Rightarrow> int list \<Rightarrow> rat" where
  "std_recall labels preds =
     prf_divide (of_nat (true_pos labels preds))
                (of_nat (true_pos labels preds + false_neg labels preds))"

definition std_f1 :: "int list \<Rightarrow> int list \<Rightarrow> rat" where
  "std_f1 labels preds =
     prf_divide (of_nat (2 * true_pos labels preds))
                (of_nat (2 * true_pos labels preds + false_pos labels preds
                         + false_neg labels preds))"

subsection \<open>Observations on a run\<close>

fun is_set_state :: "event \<Rightarrow> bool" where
  "is_set_state (SetState i r) = True"
| "is_set_state _ = False"

fun is_push_to_hub :: "event \<Rightarrow> bool" where
  "is_push_to_hub (PushToHub ob a) = True"
| "is_push_to_hub _ = False"

fun is_load_dataset :: "event \<Rightarrow> bool" where
  "is_load_dataset (LoadDataset p) = True"
| "is_load_dataset _ = False"

text \<open>The \<open>eval_dataset\<close> arguments of the trainers constructed, in order.\<close>

fun trainer_eval_datasets :: "event list \<Rightarrow> dataset option list" where
  "trainer_eval_datasets [] = []"
| "trainer_eval_datasets (Trainer m a t e k # evs) = e # trainer_eval_datasets evs"
| "trainer_eval_datasets (_ # evs) = trainer_eval_datasets evs"

text \<open>The paths handed to \<open>from_pretrained\<close>, in order.\<close>

fun from_pretrained_paths :: "event list \<Rightarrow> string list" where
  "from_pretrained_paths [] = []"
| "from_pretrained_paths (FromPretrained c p # evs) = p # from_pretrained_paths evs"
| "from_pretrained_paths (_ # evs) = from_pretrained_paths evs"

subsection \<open>Concrete collaborators\<close>

text \<open>
  Collaborators that all succeed, an instance as \<open>__init__\<close> leaves it (with arbitrary
  values for the attributes it does not create), and the default arguments of
  \<open>fine_tune\<close>.
\<close>

definition env_ok :: env where
  "env_ok =
     \<lparr>output_folder = ''/out'',
      transformers_getattr = (\<lambda>h. Inr ()),
      from_pretrained = (\<lambda>h. Inr (Obj (length h) True)),
      copy_from_remote = (\<lambda>h. Inr ()),
      input_get = (\<lambda>h. Inr ''/data/in''),
      load_dataset = (\<lambda>h. Inr (Some (length h))),
      new_training_arguments = (\<lambda>h. Inr ()),
      new_trainer = (\<lambda>h. Inr ()),
      train = (\<lambda>h. Inr ()),
      save_model = (\<lambda>h. Inr ()),
      evaluate = (\<lambda>h. Inr ''{}''),
      push_to_hub = (\<lambda>h. Inr ()),
      set_state = (\<lambda>h. Inr ())\<rparr>"

definition self0 :: fine_tuner where
  "self0 =
     \<lparr>bolt_id = ''bolt'', model_name = None, tokenizer_name = None, model_class = None,
      tokenizer_class = None, eval_flag = False, tokenizer = None, model = None,
      train_dataset = None, eval_dataset = None, output_dir = [], num_train_epochs = 0,
      per_device_train_batch_size = 0, hf_repo_id = None, hf_commit_message = None,
      hf_token = None, hf_private = True, hf_create_pr = False\<rparr>"

definition args0 :: ft_args where
  "args0 =
     \<lparr>arg_model_name = ''bert'', arg_tokenizer_name = ''bert'', arg_num_train_epochs = 1,
      arg_per_device_train_batch_size = 8, arg_model_class = ''AutoModel'',
      arg_tokenizer_class = ''AutoTokenizer'', arg_eval = False, arg_hf_repo_id = None,
      arg_hf_commit_message = None, arg_hf_token = None, arg_hf_private = True,
      arg_hf_create_pr = False, arg_kwargs = []\<rparr>"

text \<open>A write of a failure record to the state store.\<close>

fun is_failure_write :: "event \<Rightarrow> bool" where
  "is_failure_write (SetState i r) = (map_of r ''success'' = Some (PyBool False))"
| "is_failure_write _ = False"

text \<open>
  Variations: a dataset loader that raises \<open>Exception()\<close>, whose text is empty; a trainer
  that fails; a state store that fails; an interrupt during training; the names that ask
  for the local model; an instance that an earlier run with \<open>eval=True\<close> has used.
\<close>

definition env_loader_raises :: env where
  "env_loader_raises = env_ok\<lparr>load_dataset := (\<lambda>h. Inl (PyExn True []))\<rparr>"

definition env_train_fails :: env where
  "env_train_fails = env_ok\<lparr>train := (\<lambda>h. Inl (PyExn True ''out of memory''))\<rparr>"

definition env_store_down :: env where
  "env_store_down = env_ok\<lparr>set_state := (\<lambda>h. Inl (PyExn True ''store down''))\<rparr>"

definition env_interrupted :: env where
  "env_interrupted = env_ok\<lparr>train := (\<lambda>h. Inl (PyExn False []))\<rparr>"

definition env_train_fails_store_down :: env where
  "env_train_fails_store_down =
     env_train_fails\<lparr>set_state := (\<lambda>h. Inl (PyExn True ''store down''))\<rparr>"

definition args_local :: ft_args where
  "args_local = args0\<lparr>arg_model_name := ''local'', arg_tokenizer_name := ''Local''\<rparr>"

definition args_eval_hub :: ft_args where
  "args_eval_hub = args0\<lparr>arg_eval := True, arg_hf_repo_id := Some ''org/repo''\<rparr>"

definition self_used :: fine_tuner where
  "self_used = self0\<lparr>eval_flag := True, eval_dataset := Some 7\<rparr>"

definition example_predictions :: "rat list list" where
  "example_predictions = [[9 / 10, 1 / 10], [2 / 10, 8 / 10], [3 / 10, 7 / 10]]"

subsection \<open>Reasoning about statements\<close>

text \<open>
  \<open>valid B P m\<close>: started on an instance that satisfies \<open>B\<close>, the statement \<open>m\<close> leaves
  one that satisfies \<open>B\<close> (however it ends) and makes only calls that satisfy \<open>P\<close>.
\<close>

definition valid :: "(fine_tuner \<Rightarrow> bool) \<Rightarrow> (event \<Rightarrow> bool) \<Rightarrow> 'a prog \<Rightarrow> bool" where
  "valid B P m =
     (\<forall>s h. B s \<longrightarrow> B (self_after (m s h)) \<and> list_all P (events (m s h)))"

text \<open>The configuration that \<open>fine_tune\<close> assigns first and no later statement changes.\<close>

definition configured :: "string \<Rightarrow> bool \<Rightarrow> string option \<Rightarrow> fine_tuner \<Rightarrow> bool" where
  "configured b ev rid s = (bolt_id s = b \<and> eval_flag s = ev \<and> hf_repo_id s = rid)"

text \<open>
  \<open>returns B m\<close>: started on an instance that satisfies \<open>B\<close>, the statement \<open>m\<close> returns
  a value and leaves an instance that satisfies \<open>B\<close>. \<open>collaborators_return\<close>: no
  collaborator other than the state store ever raises. \<open>named\<close>: the two names are
  assigned.
\<close>

definition returns :: "(fine_tuner \<Rightarrow> bool) \<Rightarrow> 'a prog \<Rightarrow> bool" where
  "returns B m =
     (\<forall>s h. B s \<longrightarrow> (\<exists>x. outcome (m s h) = Inr x) \<and> B (self_after (m s h)))"

definition collaborators_return :: "env \<Rightarrow> bool" where
  "collaborators_return E =
     (\<forall>h. (\<exists>x. transformers_getattr E h = Inr x) \<and> (\<exists>x. from_pretrained E h = Inr x) \<and>
          (\<exists>x. copy_from_remote E h = Inr x) \<and> (\<exists>x. input_get E h = Inr x) \<and>
          (\<exists>x. load_dataset E h = Inr x) \<and> (\<exists>x. new_training_arguments E h = Inr x) \<and>
          (\<exists>x. new_trainer E h = Inr x) \<and> (\<exists>x. train E h = Inr x) \<and>
          (\<exists>x. save_model E h = Inr x) \<and> (\<exists>x. evaluate E h = Inr x) \<and>
          (\<exists>x. push_to_hub E h = Inr x))"

definition named :: "fine_tuner \<Rightarrow> bool" where
  "named s = (model_name s \<noteq> None \<and> tokenizer_name s \<noteq> None)"

text \<open>
  The exception, if any, with which a collaborator answers a call, given the history that
  ends with the call; logging answers with none. \<open>raised_in E h evs\<close> lists the
  exceptions that the collaborators raise in answer to the calls \<open>evs\<close> made after the
  history \<open>h\<close>, in order. \<open>faithful E B m\<close>: started on an instance that satisfies \<open>B\<close>,
  the statement \<open>m\<close> raises exactly what a collaborator raised in answer to one of its
  calls, returns if none did, and leaves an instance that satisfies \<open>B\<close>.
\<close>

definition exn_of :: "py_exn + 'a \<Rightarrow> py_exn option" where
  "exn_of r = (case r of Inl e \<Rightarrow> Some e | Inr x \<Rightarrow> None)"

fun response :: "env \<Rightarrow> event \<Rightarrow> event list \<Rightarrow> py_exn option" where
  "response E (GetAttr c) hist = exn_of (transformers_getattr E hist)"
| "response E (FromPretrained c p) hist = exn_of (from_pretrained E hist)"
| "response E CopyFromRemote hist = exn_of (copy_from_remote E hist)"
| "response E InputGet hist = exn_of (input_get E hist)"
| "response E (LoadDataset p) hist = exn_of (load_dataset E hist)"
| "response E (TrainingArguments t) hist = exn_of (new_training_arguments E hist)"
| "response E (Trainer m t d x k) hist = exn_of (new_trainer E hist)"
| "response E Train hist = exn_of (train E hist)"
| "response E SaveModel hist = exn_of (save_model E hist)"
| "response E Evaluate hist = exn_of (evaluate E hist)"
| "response E (PushToHub ob x) hist = exn_of (push_to_hub E hist)"
| "response E (SetState i r) hist = exn_of (set_state E hist)"
| "response E (LogError m) hist = None"
| "response E (LogInfo m) hist = None"

fun raised_in :: "env \<Rightarrow> event list \<Rightarrow> event list \<Rightarrow> py_exn list" where
  "raised_in E h [] = []"
| "raised_in E h (ev # evs) =
     (case response E ev (h @ [ev]) of None \<Rightarrow> [] | Some e \<Rightarrow> [e])
     @ raised_in E (h @ [ev]) evs"

definition faithful :: "env \<Rightarrow> (fine_tuner \<Rightarrow> bool) \<Rightarrow> 'a prog \<Rightarrow> bool" where
  "faithful E B m =
     (\<forall>s h. B s \<longrightarrow>
        B (self_after (m s h)) \<and>
        raised_in E h (events (m s h))
          = (case outcome (m s h) of Inl e \<Rightarrow> [e] | Inr x \<Rightarrow> []))"

section \<open>Proofs\<close>

subsection \<open>Rules for statements\<close>

lemma validD:
  "valid B P m \<Longrightarrow> B s \<Longrightarrow> m s h = (r, s1, evs) \<Longrightarrow> B s1 \<and> list_all P evs"
  unfolding valid_def self_after_def events_def
  by (drule spec[where x=s], drule spec[where x=h]) simp

lemma valid_ret: "valid B P (ret x)"
  by (simp add: valid_def ret_def self_after_def events_def)

lemma valid_raise: "valid B P (raise e)"
  by (simp add: valid_def raise_def self_after_def events_def)

lemma valid_assign: "(\<And>s. B s \<Longrightarrow> B (f s)) \<Longrightarrow> valid B P (assign f)"
  by (simp add: valid_def assign_def self_after_def events_def)

lemma valid_call: "P ev \<Longrightarrow> valid B P (call ev f)"
  by (simp add: valid_def call_def self_after_def events_def)

lemma valid_bindM:
  assumes m: "valid B P m" and f: "\<And>x. valid B P (f x)"
  shows "valid B P (bindM m f)"
proof (unfold valid_def, intro allI impI)
  fix s h assume a: "B s"
  obtain r s1 evs where ms: "m s h = (r, s1, evs)" by (cases "m s h") auto
  have b: "B s1" and p: "list_all P evs"
    using validD[OF m a ms] by auto
  show "B (self_after (bindM m f s h)) \<and> list_all P (events (bindM m f s h))"
  proof (cases r)
    case (Inl e)
    with ms b p show ?thesis
      by (simp add: bindM_def self_after_def events_def)
  next
    case (Inr x)
    obtain r2 s2 evs2 where fs: "f x s1 (h @ evs) = (r2, s2, evs2)"
      by (cases "f x s1 (h @ evs)") auto
    have "B s2" "list_all P evs2"
      using validD[OF f b fs] by auto
    with ms Inr fs p show ?thesis
      by (simp add: bindM_def self_after_def events_def)
  qed
qed

lemma valid_with_self:
  assumes f: "\<And>x. B x \<Longrightarrow> valid B P (f x)"
  shows "valid B P (bindM get_self f)"
proof (unfold valid_def, intro allI impI)
  fix s h assume a: "B s"
  obtain r2 s2 evs2 where fs: "f s s h = (r2, s2, evs2)"
    by (cases "f s s h") auto
  have "B s2" "list_all P evs2"
    using validD[OF f[OF a] a fs] by auto
  with fs show "B (self_after (bindM get_self f s h)) \<and> list_all P (events (bindM get_self f s h))"
    by (simp add: bindM_def get_self_def self_after_def events_def)
qed

lemma valid_try_except:
  assumes m: "valid B P m" and hd: "\<And>e. valid B P (handler e)"
  shows "valid B P (try_except m handler)"
proof (unfold valid_def, intro allI impI)
  fix s h assume a: "B s"
  obtain r s1 evs where ms: "m s h = (r, s1, evs)" by (cases "m s h") auto
  have b: "B s1" and p: "list_all P evs"
    using validD[OF m a ms] by auto
  show "B (self_after (try_except m handler s h)) \<and> list_all P (events (try_except m handler s h))"
  proof (cases r)
    case (Inr x)
    with ms b p show ?thesis
      by (simp add: try_except_def self_after_def events_def)
  next
    case (Inl e)
    obtain r2 s2 evs2 where fs: "handler e s1 (h @ evs) = (r2, s2, evs2)"
      by (cases "handler e s1 (h @ evs)") auto
    have "B s2" "list_all P evs2"
      using validD[OF hd b fs] by auto
    with ms Inl fs p b show ?thesis
      by (simp add: try_except_def self_after_def events_def)
  qed
qed

lemma valid_log_and_reraise: "P (LogError (prefix @ str_of e)) \<Longrightarrow> valid B P (log_and_reraise prefix e)"
  unfolding log_and_reraise_def
  by (intro valid_bindM valid_call valid_raise)

lemma load_pretrained_valid:
  assumes "\<And>c. P (GetAttr c)" "P InputGet" "\<And>c p. P (FromPretrained c p)"
  shows "valid B P (load_pretrained E name cls)"
  unfolding load_pretrained_def
  by (cases name) (auto intro!: valid_bindM valid_call valid_raise assms)

lemma load_models_valid:
  assumes "\<And>c. P (GetAttr c)" "P InputGet" "\<And>c p. P (FromPretrained c p)" "\<And>m. P (LogError m)"
  shows "valid (configured b ev rid) P (load_models E)"
  unfolding load_models_def
  apply (rule valid_try_except)
   apply (rule valid_with_self)
   apply (intro valid_bindM load_pretrained_valid valid_assign assms)
    apply (simp_all add: configured_def valid_log_and_reraise assms)
  done

lemma preprocess_data_valid:
  assumes "P CopyFromRemote" "P InputGet" "\<And>p. P (LoadDataset (os_path_join p ''train''))"
    "\<And>p. ev \<Longrightarrow> P (LoadDataset (os_path_join p ''eval''))" "\<And>m. P (LogError m)"
  shows "valid (configured b ev rid) P (preprocess_data E)"
  unfolding preprocess_data_def
  apply (rule valid_try_except)
   apply (rule valid_bindM, rule valid_call, rule assms)
   apply (rule valid_bindM, rule valid_call, rule assms)
   apply (rule valid_bindM, rule valid_call, rule assms)
   apply (rule valid_bindM, rule valid_call, rule assms)
   apply (rule valid_bindM, rule valid_assign, simp add: configured_def)
   apply (rule valid_with_self)
   apply (auto intro!: valid_bindM valid_call valid_assign valid_ret assms valid_log_and_reraise simp: configured_def)
  done

lemma upload_to_hf_hub_valid:
  assumes "\<And>ob a. P (PushToHub ob a)" "\<And>m. P (LogError m)"
  shows "valid B P (upload_to_hf_hub E)"
  unfolding upload_to_hf_hub_def push_if_truthy_def
  apply (rule valid_try_except)
   apply (rule valid_with_self)
   apply (auto intro!: valid_bindM valid_call valid_ret assms valid_log_and_reraise split: option.splits)
  done


lemma valid_events:
  "valid B P m \<Longrightarrow> B s \<Longrightarrow> list_all P (events (m s h)) \<and> B (self_after (m s h))"
  by (simp add: valid_def)

lemma bindM_assign: "bindM (assign F) g s h = g () (F s) h"
  by (simp add: bindM_def assign_def split: prod.splits)

lemma fine_tune_body_calls:
  assumes P: "\<And>c. P (GetAttr c)" "P InputGet" "\<And>c p. P (FromPretrained c p)"
      "\<And>m. P (LogError m)" "P CopyFromRemote"
      "\<And>p. P (LoadDataset (os_path_join p ''train''))"
      "\<And>p. arg_eval a \<Longrightarrow> P (LoadDataset (os_path_join p ''eval''))"
      "\<And>t. P (TrainingArguments t)"
      "\<And>m t d x k. P (Trainer m t d (if arg_eval a then x else None) k)"
      "P Train" "P SaveModel"
      "arg_eval a \<Longrightarrow> P Evaluate" "\<And>m. arg_eval a \<Longrightarrow> P (LogInfo m)"
      "\<And>ob x. truthy_str (arg_hf_repo_id a) \<Longrightarrow> P (PushToHub ob x)"
  shows "list_all P (events (fine_tune_body E a s h)) \<and>
         configured (bolt_id s) (arg_eval a) (arg_hf_repo_id a)
           (self_after (fine_tune_body E a s h))"
  unfolding fine_tune_body_def Let_def
  apply (subst bindM_assign)+
  apply (rule valid_events)
   apply (rule valid_bindM, rule load_models_valid, (rule P)+)
   apply (rule valid_bindM, rule preprocess_data_valid, (rule P | assumption)+)
   apply (rule valid_with_self)
   apply (rule valid_bindM, rule valid_call, rule P)
   apply (rule valid_bindM, rule valid_call)
    apply (simp add: configured_def P)
   apply (rule valid_bindM, rule valid_call, rule P)
   apply (rule valid_bindM, rule valid_call, rule P)
   apply (rule valid_bindM)
    apply (auto intro!: valid_bindM valid_call valid_ret upload_to_hf_hub_valid P simp: configured_def)
  done

lemma fine_tune_unfold:
  assumes "fine_tune_body E a s h = (r, s1, evs)"
  shows "fine_tune E a s h =
     (case r of
        Inr x \<Rightarrow> (set_state E (h @ evs @ [SetState (bolt_id s1) success_record]), s1,
                  evs @ [SetState (bolt_id s1) success_record])
      | Inl e \<Rightarrow>
          if is_Exception e
          then ((case set_state E (h @ evs @ [LogError (''Failed to fine tune model: '' @ str_of e),
                                            SetState (bolt_id s1) (failure_record e)]) of
                   Inl e2 \<Rightarrow> Inl e2 | Inr u \<Rightarrow> Inl e), s1,
                evs @ [LogError (''Failed to fine tune model: '' @ str_of e),
                       SetState (bolt_id s1) (failure_record e)])
          else (Inl e, s1, evs))"
  using assms
  by (simp add: fine_tune_def bindM_def try_except_def call_def get_self_def raise_def
           split: sum.splits prod.splits)

subsection \<open>The calls of a run\<close>

lemma os_path_join_last: "b \<noteq> [] \<Longrightarrow> last (os_path_join a b) = last b"
  by (simp add: os_path_join_def)

lemma train_path_not_eval_path: "os_path_join p ''train'' \<noteq> os_path_join q ''eval''"
proof
  assume "os_path_join p ''train'' = os_path_join q ''eval''"
  then have "last (os_path_join p ''train'') = last (os_path_join q ''eval'')" by simp
  then show False by (simp add: os_path_join_last)
qed

lemma fine_tune_body_no_set_state:
  "filter is_set_state (events (fine_tune_body E a s h)) = [] \<and>
   bolt_id (self_after (fine_tune_body E a s h)) = bolt_id s"
proof -
  have "list_all (\<lambda>e. \<not> is_set_state e) (events (fine_tune_body E a s h)) \<and>
        configured (bolt_id s) (arg_eval a) (arg_hf_repo_id a)
          (self_after (fine_tune_body E a s h))"
    by (rule fine_tune_body_calls) simp_all
  then show ?thesis
    by (simp add: configured_def list_all_iff filter_empty_conv)
qed

lemma fine_tune_calls:
  assumes body: "list_all P (events (fine_tune_body E a s h))"
    and P: "\<And>m. P (LogError m)" "\<And>i r. P (SetState i r)"
  shows "list_all P (events (fine_tune E a s h))"
proof -
  obtain r s1 evs where b: "fine_tune_body E a s h = (r, s1, evs)"
    by (cases "fine_tune_body E a s h") auto
  with body have "list_all P evs" by (simp add: events_def)
  then show ?thesis
    by (simp add: fine_tune_unfold[OF b] events_def P split: sum.splits)
qed


lemma trainer_eval_datasets_None:
  "list_all (\<lambda>e. \<forall>m t d x k. e = Trainer m t d x k \<longrightarrow> x = None) evs \<Longrightarrow>
   set (trainer_eval_datasets evs) \<subseteq> {None}"
  by (induction evs rule: trainer_eval_datasets.induct) auto

lemma join_model: "os_path_join p ''/model'' = ''/model''"
  by (simp add: os_path_join_def)


lemmas load_models_unfold = load_models_def load_pretrained_def bindM_def try_except_def
  call_def get_self_def assign_def raise_def log_and_reraise_def events_def


lemmas run_defs = fine_tune_def fine_tune_body_def load_models_def load_pretrained_def
  preprocess_data_def upload_to_hf_hub_def push_if_truthy_def hub_args_of_def
  log_and_reraise_def bindM_def try_except_def call_def get_self_def assign_def ret_def
  raise_def outcome_def events_def self_after_def lower_def lower_char_def os_path_join_def
  py_str_def truthy_str_def failure_record_def success_record_def
  env_ok_def self0_def args0_def env_loader_raises_def env_train_fails_def env_store_down_def
  env_interrupted_def env_train_fails_store_down_def Let_def args_local_def args_eval_hub_def self_used_def

subsection \<open>Runs that return\<close>

lemma returnsD:
  "returns B m \<Longrightarrow> B s \<Longrightarrow> \<exists>x s1 evs. m s h = (Inr x, s1, evs) \<and> B s1"
  unfolding returns_def outcome_def self_after_def
  by (drule spec[where x=s], drule spec[where x=h]) (cases "m s h", auto)

lemma returns_ret: "returns B (ret x)"
  by (simp add: returns_def ret_def outcome_def self_after_def)

lemma returns_assign: "(\<And>s. B s \<Longrightarrow> B (f s)) \<Longrightarrow> returns B (assign f)"
  by (simp add: returns_def assign_def outcome_def self_after_def)

lemma returns_call: "(\<And>h. \<exists>x. f h = Inr x) \<Longrightarrow> returns B (call ev f)"
  by (simp add: returns_def call_def outcome_def self_after_def)

lemma returns_bindM:
  assumes m: "returns B m" and f: "\<And>x. returns B (f x)"
  shows "returns B (bindM m f)"
proof (unfold returns_def, intro allI impI)
  fix s h assume a: "B s"
  from returnsD[OF m a, of h] obtain x s1 evs where ms: "m s h = (Inr x, s1, evs)" and b: "B s1"
    by blast
  from returnsD[OF f b, of x "h @ evs"] obtain y s2 evs2
    where fs: "f x s1 (h @ evs) = (Inr y, s2, evs2)" and c: "B s2"
    by blast
  show "(\<exists>x. outcome (bindM m f s h) = Inr x) \<and> B (self_after (bindM m f s h))"
    using ms fs c by (simp add: bindM_def outcome_def self_after_def)
qed

lemma returns_with_self:
  assumes f: "\<And>x. B x \<Longrightarrow> returns B (f x)"
  shows "returns B (bindM get_self f)"
proof (unfold returns_def, intro allI impI)
  fix s h assume a: "B s"
  from returnsD[OF f[OF a] a, of h] obtain y s2 evs2
    where fs: "f s s h = (Inr y, s2, evs2)" and c: "B s2"
    by blast
  show "(\<exists>x. outcome (bindM get_self f s h) = Inr x) \<and> B (self_after (bindM get_self f s h))"
    using fs c by (simp add: bindM_def get_self_def outcome_def self_after_def)
qed

lemma returns_try_except:
  assumes m: "returns B m"
  shows "returns B (try_except m handler)"
proof (unfold returns_def, intro allI impI)
  fix s h assume a: "B s"
  from returnsD[OF m a, of h] obtain x s1 evs where ms: "m s h = (Inr x, s1, evs)" and b: "B s1"
    by blast
  show "(\<exists>x. outcome (try_except m handler s h) = Inr x) \<and> B (self_after (try_except m handler s h))"
    using ms b by (simp add: try_except_def outcome_def self_after_def)
qed

lemma load_pretrained_returns:
  assumes "collaborators_return E" "name \<noteq> None"
  shows "returns B (load_pretrained E name cls)"
  using assms unfolding load_pretrained_def collaborators_return_def
  by (cases name) (auto intro!: returns_bindM returns_call)

lemma load_models_returns:
  assumes "collaborators_return E"
  shows "returns named (load_models E)"
  unfolding load_models_def
  apply (rule returns_try_except)
  apply (rule returns_with_self)
  apply (intro returns_bindM load_pretrained_returns returns_assign assms)
     apply (simp_all add: named_def)
  done

lemma preprocess_data_returns:
  assumes "collaborators_return E"
  shows "returns named (preprocess_data E)"
  using assms unfolding preprocess_data_def collaborators_return_def
  apply -
  apply (rule returns_try_except)
  apply (rule returns_bindM, rule returns_call, blast)
  apply (rule returns_bindM, rule returns_call, blast)
  apply (rule returns_bindM, rule returns_call, blast)
  apply (rule returns_bindM, rule returns_call, blast)
  apply (rule returns_bindM, rule returns_assign, simp add: named_def)
  apply (rule returns_with_self)
  apply (auto intro!: returns_bindM returns_call returns_assign returns_ret simp: named_def)
  done

lemma upload_to_hf_hub_returns:
  assumes "collaborators_return E"
  shows "returns B (upload_to_hf_hub E)"
  using assms unfolding upload_to_hf_hub_def push_if_truthy_def collaborators_return_def
  apply -
  apply (rule returns_try_except)
  apply (rule returns_with_self)
  apply (auto intro!: returns_bindM returns_call returns_ret split: option.splits)
  done

lemma returns_outcome: "returns B m \<Longrightarrow> B s \<Longrightarrow> \<exists>x. outcome (m s h) = Inr x"
  by (simp add: returns_def)

lemma fine_tune_body_returns:
  assumes E: "collaborators_return E"
  shows "outcome (fine_tune_body E a s h) = Inr ()"
proof -
  have "\<exists>x. outcome (fine_tune_body E a s h) = Inr x"
    unfolding fine_tune_body_def Let_def
    apply (subst bindM_assign)
    apply (rule returns_outcome[where B=named])
     apply (rule returns_bindM, rule load_models_returns[OF E])
     apply (rule returns_bindM, rule preprocess_data_returns[OF E])
     apply (rule returns_with_self)
    using E unfolding collaborators_return_def
     apply (auto intro!: returns_bindM returns_call returns_ret upload_to_hf_hub_returns[OF E] simp: named_def)
    done
  then show ?thesis by simp
qed

subsection \<open>Exceptions that reach the caller\<close>

lemma raised_in_append:
  "raised_in E h (xs @ ys) = raised_in E h xs @ raised_in E (h @ xs) ys"
  by (induction xs arbitrary: h) simp_all

lemma faithfulD:
  "faithful E B m \<Longrightarrow> B s \<Longrightarrow> m s h = (r, s1, evs) \<Longrightarrow>
     B s1 \<and> raised_in E h evs = (case r of Inl e \<Rightarrow> [e] | Inr x \<Rightarrow> [])"
  unfolding faithful_def self_after_def events_def outcome_def
  by (drule spec[where x=s], drule spec[where x=h]) simp

lemma faithful_ret: "faithful E B (ret x)"
  by (simp add: faithful_def ret_def self_after_def events_def outcome_def)

lemma faithful_assign: "(\<And>s. B s \<Longrightarrow> B (f s)) \<Longrightarrow> faithful E B (assign f)"
  by (simp add: faithful_def assign_def self_after_def events_def outcome_def)

lemma faithful_call:
  "(\<And>hist. response E ev hist = exn_of (f hist)) \<Longrightarrow> faithful E B (call ev f)"
  by (simp add: faithful_def call_def self_after_def events_def outcome_def exn_of_def
           split: sum.splits)

lemma faithful_bindM:
  assumes m: "faithful E B m" and f: "\<And>x. faithful E B (f x)"
  shows "faithful E B (bindM m f)"
proof (unfold faithful_def, intro allI impI)
  fix s h assume a: "B s"
  obtain r s1 evs where ms: "m s h = (r, s1, evs)" by (cases "m s h") auto
  have b: "B s1" and p: "raised_in E h evs = (case r of Inl e \<Rightarrow> [e] | Inr x \<Rightarrow> [])"
    using faithfulD[OF m a ms] by auto
  show "B (self_after (bindM m f s h)) \<and>
        raised_in E h (events (bindM m f s h))
          = (case outcome (bindM m f s h) of Inl e \<Rightarrow> [e] | Inr x \<Rightarrow> [])"
  proof (cases r)
    case (Inl e)
    with ms b p show ?thesis
      by (simp add: bindM_def self_after_def events_def outcome_def)
  next
    case (Inr x)
    obtain r2 s2 evs2 where fs: "f x s1 (h @ evs) = (r2, s2, evs2)"
      by (cases "f x s1 (h @ evs)") auto
    have "B s2" "raised_in E (h @ evs) evs2 = (case r2 of Inl e \<Rightarrow> [e] | Inr x \<Rightarrow> [])"
      using faithfulD[OF f b fs] by auto
    with ms Inr fs p show ?thesis
      by (simp add: bindM_def self_after_def events_def outcome_def raised_in_append)
  qed
qed

lemma faithful_with_self:
  assumes f: "\<And>x. B x \<Longrightarrow> faithful E B (f x)"
  shows "faithful E B (bindM get_self f)"
proof (unfold faithful_def, intro allI impI)
  fix s h assume a: "B s"
  obtain r2 s2 evs2 where fs: "f s s h = (r2, s2, evs2)"
    by (cases "f s s h") auto
  have "B s2" "raised_in E h evs2 = (case r2 of Inl e \<Rightarrow> [e] | Inr x \<Rightarrow> [])"
    using faithfulD[OF f[OF a] a fs] by auto
  with fs show "B (self_after (bindM get_self f s h)) \<and>
        raised_in E h (events (bindM get_self f s h))
          = (case outcome (bindM get_self f s h) of Inl e \<Rightarrow> [e] | Inr x \<Rightarrow> [])"
    by (simp add: bindM_def get_self_def self_after_def events_def outcome_def)
qed

lemma faithful_try_log:
  assumes m: "faithful E B m"
  shows "faithful E B (try_except m (log_and_reraise prefix))"
proof (unfold faithful_def, intro allI impI)
  fix s h assume a: "B s"
  obtain r s1 evs where ms: "m s h = (r, s1, evs)" by (cases "m s h") auto
  have b: "B s1" and p: "raised_in E h evs = (case r of Inl e \<Rightarrow> [e] | Inr x \<Rightarrow> [])"
    using faithfulD[OF m a ms] by auto
  show "B (self_after (try_except m (log_and_reraise prefix) s h)) \<and>
        raised_in E h (events (try_except m (log_and_reraise prefix) s h))
          = (case outcome (try_except m (log_and_reraise prefix) s h) of
               Inl e \<Rightarrow> [e] | Inr x \<Rightarrow> [])"
    using ms b p
    by (cases r)
       (simp_all add: try_except_def log_and_reraise_def bindM_def call_def raise_def
          self_after_def events_def outcome_def raised_in_append)
qed

lemma load_pretrained_faithful:
  assumes "name \<noteq> None"
  shows "faithful E B (load_pretrained E name cls)"
  using assms unfolding load_pretrained_def
  by (cases name) (auto intro!: faithful_bindM faithful_call)

lemma load_models_faithful: "faithful E named (load_models E)"
  unfolding load_models_def
  apply (rule faithful_try_log)
  apply (rule faithful_with_self)
  apply (intro faithful_bindM load_pretrained_faithful faithful_assign)
     apply (simp_all add: named_def)
  done

lemma preprocess_data_faithful: "faithful E named (preprocess_data E)"
  unfolding preprocess_data_def
  apply (rule faithful_try_log)
  apply (rule faithful_bindM, rule faithful_call, simp)
  apply (rule faithful_bindM, rule faithful_call, simp)
  apply (rule faithful_bindM, rule faithful_call, simp)
  apply (rule faithful_bindM, rule faithful_call, simp)
  apply (rule faithful_bindM, rule faithful_assign, simp add: named_def)
  apply (rule faithful_with_self)
  apply (auto intro!: faithful_bindM faithful_call faithful_assign faithful_ret simp: named_def)
  done

lemma upload_to_hf_hub_faithful: "faithful E B (upload_to_hf_hub E)"
  unfolding upload_to_hf_hub_def push_if_truthy_def
  apply (rule faithful_try_log)
  apply (rule faithful_with_self)
  apply (auto intro!: faithful_bindM faithful_call faithful_ret split: option.splits)
  done

lemma faithful_raised:
  "faithful E B m \<Longrightarrow> B s \<Longrightarrow>
   raised_in E h (events (m s h)) = (case outcome (m s h) of Inl e \<Rightarrow> [e] | Inr x \<Rightarrow> [])"
  by (simp add: faithful_def)

lemma fine_tune_body_raised:
  "raised_in E h (events (fine_tune_body E a s h))
     = (case outcome (fine_tune_body E a s h) of Inl e \<Rightarrow> [e] | Inr x \<Rightarrow> [])"
  unfolding fine_tune_body_def Let_def
  apply (subst bindM_assign)+
  apply (rule faithful_raised[where B=named])
   apply (rule faithful_bindM, rule load_models_faithful)
   apply (rule faithful_bindM, rule preprocess_data_faithful)
   apply (rule faithful_with_self)
   apply (auto intro!: faithful_bindM faithful_call faithful_ret upload_to_hf_hub_faithful
               simp: named_def exn_of_def)
  done

subsection \<open>Counting predictions against labels\<close>

lemma argmax_row_two: "length row = 2 \<Longrightarrow> argmax_row row = 0 \<or> argmax_row row = 1"
  by (cases row; cases "tl row") (auto simp: argmax_row_def)

lemma np_argmax_axis1_two:
  assumes "list_all (\<lambda>row. length row = 2) m"
  shows "np_argmax_axis1 m = Inr (map argmax_row m)"
proof (cases m)
  case Nil
  then show ?thesis by (simp add: np_argmax_axis1_def)
next
  case (Cons r rs)
  with assms have "length r = 2" and "list_all (\<lambda>row. length row = 2) rs" by simp_all
  then have "list_all (\<lambda>row. length row = length r) rs" and "r \<noteq> []"
    by (auto simp: list_all_iff)
  with Cons show ?thesis by (simp add: np_argmax_axis1_def)
qed

lemma argmax_binary:
  "list_all (\<lambda>row. length row = 2) m \<Longrightarrow> set (map argmax_row m) \<subseteq> {0, 1}"
  using argmax_row_two by (auto simp: list_all_iff)

lemma pred_sum_split:
  "length ys = length ps \<Longrightarrow>
   length (filter (\<lambda>p. p = 1) ps) = true_pos ys ps + false_pos ys ps"
  by (induction ys ps rule: list_induct2)
     (auto simp: true_pos_def false_pos_def count_where_def)

lemma true_sum_split:
  "length ys = length ps \<Longrightarrow>
   length (filter (\<lambda>t. t = 1) ys) = true_pos ys ps + false_neg ys ps"
  by (induction ys ps rule: list_induct2)
     (auto simp: true_pos_def false_neg_def count_where_def)

lemma matches_split:
  "length ys = length ps \<Longrightarrow> set ys \<subseteq> {0, 1} \<Longrightarrow> set ps \<subseteq> {0, 1} \<Longrightarrow>
   count_where (\<lambda>t p. t = p) ys ps = true_pos ys ps + true_neg ys ps"
  by (induction ys ps rule: list_induct2)
     (auto simp: true_pos_def true_neg_def count_where_def)

lemma counts_total:
  "length ys = length ps \<Longrightarrow>
   true_pos ys ps + true_neg ys ps + false_pos ys ps + false_neg ys ps = length ys"
  by (induction ys ps rule: list_induct2)
     (auto simp: true_pos_def true_neg_def false_pos_def false_neg_def count_where_def)

lemma binary_present:
  assumes "set ys \<subseteq> {0, 1::int}" "set ps \<subseteq> {0, 1}"
  shows "length (remdups (ys @ ps)) \<le> 2"
    and "1 \<notin> set (remdups (ys @ ps)) \<Longrightarrow> length (remdups (ys @ ps)) < 2"
proof -
  have sub: "set (ys @ ps) \<subseteq> {0, 1}" using assms by auto
  have "card (set (ys @ ps)) \<le> card {0, 1::int}"
    by (rule card_mono) (use sub in auto)
  then show "length (remdups (ys @ ps)) \<le> 2"
    by (simp add: length_remdups_card_conv)
  assume "1 \<notin> set (remdups (ys @ ps))"
  with sub have "set (ys @ ps) \<subseteq> {0}" by auto
  then have "card (set (ys @ ps)) \<le> card {0::int}"
    by (intro card_mono) auto
  then show "length (remdups (ys @ ps)) < 2"
    by (simp add: length_remdups_card_conv)
qed

lemma prf_divide_unit: "0 \<le> n \<Longrightarrow> n \<le> d \<Longrightarrow> 0 \<le> prf_divide n d \<and> prf_divide n d \<le> 1"
  by (simp add: prf_divide_def)

lemma harmonic_mean:
  fixes t x y :: rat
  assumes "t > 0" "x > 0" "y > 0"
  shows "2 * (t / x) * (t / y) / (t / x + t / y) = 2 * t / (x + y)"
proof -
  have s: "t / x + t / y = t * (x + y) / (x * y)"
    using assms by (simp add: field_simps)
  have p: "2 * (t / x) * (t / y) = 2 * t * t / (x * y)"
    by simp
  have nz: "x * y \<noteq> 0" "t \<noteq> 0" "x + y \<noteq> 0"
    using assms by auto
  have "2 * t * t / (x * y) / (t * (x + y) / (x * y)) = (2 * t * t) / (t * (x + y))"
    using nz(1) by simp
  also have "\<dots> = 2 * t / (x + y)"
    using nz(2) by simp
  finally have "2 * t * t / (x * y) / (t * (x + y) / (x * y)) = 2 * t / (x + y)" .
  then show ?thesis by (simp only: s p)
qed

lemma f_score_std:
  fixes tp fp fn :: nat
  shows "prf_divide (2 * prf_divide (of_nat tp) (of_nat (tp + fp)) * prf_divide (of_nat tp) (of_nat (tp + fn)))
           (prf_divide (of_nat tp) (of_nat (tp + fp)) + prf_divide (of_nat tp) (of_nat (tp + fn)))
         = prf_divide (of_nat (2 * tp)) (of_nat (2 * tp + fp + fn))"
proof (cases "tp = 0")
  case True
  then show ?thesis by (simp add: prf_divide_def)
next
  case False
  define t x y :: rat where "t = of_nat tp" and "x = of_nat (tp + fp)" and "y = of_nat (tp + fn)"
  from False have pos: "t > 0" "x > 0" "y > 0"
    by (simp_all add: t_def x_def y_def)
  then have d: "t / x + t / y > 0"
    by (simp add: add_pos_pos)
  have xy: "of_nat (2 * tp + fp + fn) = x + y" "(of_nat (2 * tp) :: rat) = 2 * t"
    by (simp_all add: t_def x_def y_def)
  have "prf_divide (2 * prf_divide t x * prf_divide t y) (prf_divide t x + prf_divide t y)
        = 2 * (t / x) * (t / y) / (t / x + t / y)"
    using pos d by (simp add: prf_divide_def)
  also have "\<dots> = 2 * t / (x + y)"
    by (rule harmonic_mean) (rule pos)+
  also have "\<dots> = prf_divide (2 * t) (x + y)"
    using pos by (simp add: prf_divide_def)
  finally show ?thesis
    by (simp only: xy flip: t_def x_def y_def)
qed


lemma count_where_le: "count_where P xs ys \<le> length xs"
proof -
  have "count_where P xs ys \<le> length (zip xs ys)"
    unfolding count_where_def by (rule length_filter_le)
  then show ?thesis by simp
qed

lemma prf_binary:
  assumes len: "length ys = length ps" and ys: "set ys \<subseteq> {0, 1}" and ps: "set ps \<subseteq> {0, 1}"
  shows "precision_recall_fscore_support ys ps =
           Inr (Fin (std_precision ys ps), Fin (std_recall ys ps), Fin (std_f1 ys ps))"
proof -
  have "\<not> 2 < length (remdups (ys @ ps))"
    using binary_present(1)[OF ys ps] by simp
  moreover have "\<not> (1 \<notin> set (remdups (ys @ ps)) \<and> 2 \<le> length (remdups (ys @ ps)))"
    using binary_present(2)[OF ys ps] by auto
  ultimately show ?thesis
    unfolding precision_recall_fscore_support_def Let_def
    using len
    by (simp add: pred_sum_split[OF len] true_sum_split[OF len] std_precision_def
          std_recall_def std_f1_def f_score_std
          flip: true_pos_def del: of_nat_add of_nat_mult)
qed


lemmas metric_defs = compute_metrics_def bindE_def np_argmax_axis1_def argmax_row_def
  accuracy_score_def precision_recall_fscore_support_def prf_divide_def count_where_def
  example_predictions_def Let_def value_error_def inconsistent_length_def
  std_accuracy_def std_precision_def std_recall_def std_f1_def true_pos_def false_pos_def
  false_neg_def true_neg_def in_unit_def


section \<open>The properties\<close>

subsection \<open>The outcome record\<close>

text \<open>
  C1 (as amended). In every run of \<open>fine_tune\<close> in which a collaborator called in the
  \<open>try\<close> body (loading the model or the tokenizer, loading a dataset, constructing the
  trainer, training, saving, evaluating, publishing to the hub) raises an exception \<open>e\<close>
  whose class derives from \<open>Exception\<close>, that exception is the only one raised in the
  body and the body raises it, \<open>set_state\<close> is called exactly once, with the record
  \<open>{success: False, exception: str(e)}\<close>, where \<open>str(e)\<close> may be the empty string. If
  that call returns, \<open>e\<close> propagates to the caller; if it raises, what it raises
  propagates.
\<close>

theorem fine_tune_failure_written_once:
  assumes "e \<in> set (raised_in E h (events (fine_tune_body E a s h)))" and "is_Exception e"
  shows "raised_in E h (events (fine_tune_body E a s h)) = [e]
       \<and> outcome (fine_tune_body E a s h) = Inl e
       \<and> filter is_set_state (events (fine_tune E a s h))
           = [SetState (bolt_id s) (failure_record e)]
       \<and> outcome (fine_tune E a s h) =
           (case set_state E (h @ events (fine_tune E a s h)) of
              Inl e2 \<Rightarrow> Inl e2 | Inr u \<Rightarrow> Inl e)"
proof -
  obtain r s1 evs where b: "fine_tune_body E a s h = (r, s1, evs)"
    by (cases "fine_tune_body E a s h") auto
  have link: "raised_in E h evs = (case r of Inl e \<Rightarrow> [e] | Inr x \<Rightarrow> [])"
    using fine_tune_body_raised[of E h a s] b by (simp add: events_def outcome_def)
  from assms(1) b have "e \<in> set (raised_in E h evs)" by (simp add: events_def)
  with link have r: "r = Inl e" by (cases r) simp_all
  from fine_tune_body_no_set_state[of E a s h] b
  have n: "filter is_set_state evs = []" and i: "bolt_id s1 = bolt_id s"
    by (simp_all add: events_def self_after_def)
  show ?thesis
    using link
    by (simp add: fine_tune_unfold[OF b] b r assms(2) events_def outcome_def n i)
qed

theorem fine_tune_failure_written_once_witness:
  "PyExn True ''out of memory''
     \<in> set (raised_in env_train_fails [] (events (fine_tune_body env_train_fails args0 self0 [])))
   \<and> is_Exception (PyExn True ''out of memory'')
   \<and> filter is_set_state (events (fine_tune env_train_fails args0 self0 []))
       = [SetState ''bolt''
            [(''success'', PyBool False), (''exception'', PyStr ''out of memory'')]]
   \<and> outcome (fine_tune env_train_fails args0 self0 []) = Inl (PyExn True ''out of memory'')"
proof -
  have b: "PyExn True ''out of memory''
     \<in> set (raised_in env_train_fails [] (events (fine_tune_body env_train_fails args0 self0 [])))"
    by (simp add: run_defs exn_of_def)
  have x: "is_Exception (PyExn True ''out of memory'')" by simp
  have f: "filter is_set_state (events (fine_tune env_train_fails args0 self0 []))
             = [SetState ''bolt''
                  [(''success'', PyBool False), (''exception'', PyStr ''out of memory'')]]"
    using fine_tune_failure_written_once[OF b x]
    by (simp add: self0_def failure_record_def)
  have o: "outcome (fine_tune env_train_fails args0 self0 [])
             = Inl (PyExn True ''out of memory'')"
    using fine_tune_failure_written_once[OF b x]
    by (simp add: env_train_fails_def env_ok_def)
  from b x f o show ?thesis by simp
qed

text \<open>
  The dataset loader raises \<open>Exception()\<close>: the record written holds the empty string.
\<close>

theorem fine_tune_failure_empty_exception_text:
  "outcome (fine_tune env_loader_raises args0 self0 []) = Inl (PyExn True [])
   \<and> filter is_set_state (events (fine_tune env_loader_raises args0 self0 []))
       = [SetState ''bolt'' [(''success'', PyBool False), (''exception'', PyStr [])]]"
  by (simp add: run_defs)

text \<open>
  An exception that does not derive from \<open>Exception\<close> passes the handler, and nothing is
  written; a failing state store replaces the exception that is being recorded.
\<close>

lemma fine_tune_interrupt_not_recorded:
  "outcome (fine_tune env_interrupted args0 self0 []) = Inl (PyExn False [])
   \<and> filter is_set_state (events (fine_tune env_interrupted args0 self0 [])) = []"
  by (simp add: run_defs)

lemma fine_tune_failing_store_masks:
  "outcome (fine_tune env_train_fails_store_down args0 self0 []) = Inl (PyExn True ''store down'')"
  by (simp add: run_defs)

text \<open>
  C6. When no collaborator raises, the \<open>try\<close> body of \<open>fine_tune\<close> ends without
  raising; and in every run in which it ends without raising, \<open>set_state\<close> is called
  exactly once, with the record \<open>{success: True}\<close>.
\<close>

theorem fine_tune_success_written_once:
  "(collaborators_return E \<longrightarrow> outcome (fine_tune_body E a s h) = Inr ()) \<and>
   (outcome (fine_tune_body E a s h) = Inr () \<longrightarrow>
      filter is_set_state (events (fine_tune E a s h))
        = [SetState (bolt_id s) success_record])"
proof (intro conjI impI)
  assume "collaborators_return E"
  then show "outcome (fine_tune_body E a s h) = Inr ()"
    by (rule fine_tune_body_returns)
next
  assume ok: "outcome (fine_tune_body E a s h) = Inr ()"
  obtain r s1 evs where b: "fine_tune_body E a s h = (r, s1, evs)"
    by (cases "fine_tune_body E a s h") auto
  from fine_tune_body_no_set_state[of E a s h] b
  have n: "filter is_set_state evs = []" and i: "bolt_id s1 = bolt_id s"
    by (simp_all add: events_def self_after_def)
  from ok b have r: "r = Inr ()" by (simp add: outcome_def)
  show "filter is_set_state (events (fine_tune E a s h))
          = [SetState (bolt_id s) success_record]"
    by (simp add: fine_tune_unfold[OF b] r events_def n i)
qed

theorem fine_tune_success_written_once_witness:
  "collaborators_return env_ok
   \<and> outcome (fine_tune_body env_ok args_eval_hub self0 []) = Inr ()
   \<and> filter is_set_state (events (fine_tune env_ok args_eval_hub self0 []))
       = [SetState ''bolt'' [(''success'', PyBool True)]]"
proof -
  have c: "collaborators_return env_ok"
    by (simp add: collaborators_return_def env_ok_def)
  show ?thesis
    using c fine_tune_success_written_once[of env_ok args_eval_hub self0 "[]"]
    by (simp add: self0_def success_record_def)
qed

text \<open>
  C9. The write of \<open>{success: True}\<close> is outside the handler: when the \<open>try\<close> body ends
  without raising, \<open>fine_tune\<close> ends as that call of \<open>set_state\<close> ends (what it raises
  propagates), it is the only call of \<open>set_state\<close>, and no failure record is written. A
  failure record is written only when the \<open>try\<close> body raised an exception that derives
  from \<open>Exception\<close>.
\<close>

theorem fine_tune_success_write_unguarded:
  "(outcome (fine_tune_body E a s h) = Inr () \<longrightarrow>
      outcome (fine_tune E a s h) = set_state E (h @ events (fine_tune E a s h)) \<and>
      filter is_set_state (events (fine_tune E a s h))
        = [SetState (bolt_id s) success_record] \<and>
      filter is_failure_write (events (fine_tune E a s h)) = []) \<and>
   (filter is_failure_write (events (fine_tune E a s h)) \<noteq> [] \<longrightarrow>
      (\<exists>e. outcome (fine_tune_body E a s h) = Inl e \<and> is_Exception e))"
proof -
  obtain r s1 evs where b: "fine_tune_body E a s h = (r, s1, evs)"
    by (cases "fine_tune_body E a s h") auto
  from fine_tune_body_no_set_state[of E a s h] b
  have n: "filter is_set_state evs = []" and i: "bolt_id s1 = bolt_id s"
    by (simp_all add: events_def self_after_def)
  have "\<forall>x\<in>set evs. \<not> is_set_state x" using n by (simp add: filter_empty_conv)
  moreover have "\<And>x. is_failure_write x \<Longrightarrow> is_set_state x"
    by (case_tac x) simp_all
  ultimately have f: "filter is_failure_write evs = []"
    by (auto simp: filter_empty_conv)
  show ?thesis
    by (cases r)
       (simp_all add: fine_tune_unfold[OF b] b events_def outcome_def n i f success_record_def)
qed

theorem fine_tune_success_write_unguarded_witness:
  "outcome (fine_tune_body env_store_down args0 self0 []) = Inr ()
   \<and> outcome (fine_tune env_store_down args0 self0 []) = Inl (PyExn True ''store down'')
   \<and> filter is_set_state (events (fine_tune env_store_down args0 self0 []))
       = [SetState ''bolt'' [(''success'', PyBool True)]]
   \<and> filter is_failure_write (events (fine_tune env_store_down args0 self0 [])) = []"
proof -
  have b: "outcome (fine_tune_body env_store_down args0 self0 []) = Inr ()"
    by (simp add: run_defs)
  show ?thesis
    using b fine_tune_success_write_unguarded[of env_store_down args0 self0 "[]"]
    by (simp add: self0_def success_record_def env_store_down_def env_ok_def)
qed

subsection \<open>Calls that are never made\<close>

text \<open>
  C4. In every run of \<open>fine_tune\<close> with \<open>eval=False\<close>, the dataset loader is never called
  on an evaluation path (the join of a base path and \<open>eval\<close>), and the trainer's
  \<open>evaluate\<close> is never called.
\<close>

theorem fine_tune_no_eval_calls:
  assumes "\<not> arg_eval a"
  shows "Evaluate \<notin> set (events (fine_tune E a s h)) \<and>
         LoadDataset (os_path_join p ''eval'') \<notin> set (events (fine_tune E a s h))"
proof -
  let ?P = "\<lambda>e. e \<noteq> Evaluate \<and> (\<forall>q. e \<noteq> LoadDataset (os_path_join q ''eval''))"
  have "list_all ?P (events (fine_tune_body E a s h)) \<and>
        configured (bolt_id s) (arg_eval a) (arg_hf_repo_id a)
          (self_after (fine_tune_body E a s h))"
    by (rule fine_tune_body_calls) (simp_all add: assms train_path_not_eval_path)
  then have "list_all ?P (events (fine_tune E a s h))"
    by (intro fine_tune_calls) simp_all
  then show ?thesis
    by (auto simp: list_all_iff)
qed

theorem fine_tune_no_eval_calls_witness:
  "\<not> arg_eval args0
   \<and> Evaluate \<notin> set (events (fine_tune env_ok args0 self_used []))
   \<and> LoadDataset (os_path_join ''/data/in'' ''eval'')
       \<notin> set (events (fine_tune env_ok args0 self_used []))
   \<and> filter is_load_dataset (events (fine_tune env_ok args0 self_used []))
       = [LoadDataset ''/data/in/train'']"
proof -
  have a: "\<not> arg_eval args0" by (simp add: args0_def)
  have l: "filter is_load_dataset (events (fine_tune env_ok args0 self_used []))
             = [LoadDataset ''/data/in/train'']"
    by (simp add: run_defs)
  show ?thesis
    using a l fine_tune_no_eval_calls[OF a, of env_ok self_used "[]" "''/data/in''"]
    by simp
qed

text \<open>
  C5. In every run of \<open>fine_tune\<close> with \<open>hf_repo_id\<close> \<open>None\<close>, \<open>push_to_hub\<close> is called
  neither on the model nor on the tokenizer.
\<close>

theorem fine_tune_no_repo_no_push:
  assumes "arg_hf_repo_id a = None"
  shows "filter is_push_to_hub (events (fine_tune E a s h)) = []"
proof -
  have "list_all (\<lambda>e. \<not> is_push_to_hub e) (events (fine_tune_body E a s h)) \<and>
        configured (bolt_id s) (arg_eval a) (arg_hf_repo_id a)
          (self_after (fine_tune_body E a s h))"
    by (rule fine_tune_body_calls) (simp_all add: assms truthy_str_def)
  then have "list_all (\<lambda>e. \<not> is_push_to_hub e) (events (fine_tune E a s h))"
    by (intro fine_tune_calls) simp_all
  then show ?thesis
    by (simp add: list_all_iff filter_empty_conv)
qed

theorem fine_tune_no_repo_no_push_witness:
  "arg_hf_repo_id args0 = None
   \<and> filter is_push_to_hub (events (fine_tune env_ok args0 self0 [])) = []
   \<and> outcome (fine_tune env_ok args0 self0 []) = Inr ()"
proof -
  have a: "arg_hf_repo_id args0 = None" by (simp add: args0_def)
  have o: "outcome (fine_tune env_ok args0 self0 []) = Inr ()" by (simp add: run_defs)
  show ?thesis
    using a o fine_tune_no_repo_no_push[OF a, of env_ok self0 "[]"] by simp
qed

text \<open>With a repository id, both are pushed.\<close>

lemma fine_tune_repo_pushes_both:
  "length (filter is_push_to_hub (events (fine_tune env_ok args_eval_hub self0 []))) = 2"
  by (simp add: run_defs)

text \<open>
  C10. In every run of \<open>fine_tune\<close> with \<open>eval=False\<close>, every trainer is constructed with
  \<open>eval_dataset=None\<close>, whatever the attribute \<open>eval_dataset\<close> of the instance holds.
\<close>

theorem fine_tune_trainer_eval_dataset_none:
  assumes "\<not> arg_eval a"
  shows "set (trainer_eval_datasets (events (fine_tune E a s h))) \<subseteq> {None}"
proof -
  let ?P = "\<lambda>e. \<forall>m t d x k. e = Trainer m t d x k \<longrightarrow> x = None"
  have "list_all ?P (events (fine_tune_body E a s h)) \<and>
        configured (bolt_id s) (arg_eval a) (arg_hf_repo_id a)
          (self_after (fine_tune_body E a s h))"
    by (rule fine_tune_body_calls) (simp_all add: assms)
  then have "list_all ?P (events (fine_tune E a s h))"
    by (intro fine_tune_calls) simp_all
  then show ?thesis
    by (rule trainer_eval_datasets_None)
qed

theorem fine_tune_trainer_eval_dataset_none_witness:
  "\<not> arg_eval args0 \<and> eval_dataset self_used = Some 7
   \<and> trainer_eval_datasets (events (fine_tune env_ok args0 self_used [])) = [None]"
proof -
  have a: "\<not> arg_eval args0" by (simp add: args0_def)
  have l: "length (trainer_eval_datasets (events (fine_tune env_ok args0 self_used []))) = 1"
    by (simp add: run_defs)
  have "trainer_eval_datasets (events (fine_tune env_ok args0 self_used [])) = [None]"
    using l fine_tune_trainer_eval_dataset_none[OF a, of env_ok self_used "[]"]
    by (cases "trainer_eval_datasets (events (fine_tune env_ok args0 self_used []))") auto
  then show ?thesis
    using a by (simp add: self_used_def self0_def)
qed

subsection \<open>The path of a local model\<close>

text \<open>
  C8. \<open>os.path.join(p, "/model")\<close> is \<open>/model\<close> for every \<open>p\<close>. So when \<open>model_name\<close>
  is \<open>local\<close> in any case of letters, the path handed to the first \<open>from_pretrained\<close>
  (the model's) in \<open>load_models\<close> is \<open>/model\<close>, and when \<open>tokenizer_name\<close> is, the path
  handed to the second (the tokenizer's) is \<open>/model\<close>: whatever \<open>input.get()\<close> returns.
\<close>

theorem load_models_local_path:
  "os_path_join p ''/model'' = ''/model'' \<and>
   (model_name s = Some mn \<and> lower mn = ''local'' \<longrightarrow>
      set (take 1 (from_pretrained_paths (events (load_models E s h)))) \<subseteq> {''/model''}) \<and>
   (tokenizer_name s = Some tn \<and> lower tn = ''local'' \<longrightarrow>
      set (drop 1 (from_pretrained_paths (events (load_models E s h)))) \<subseteq> {''/model''})"
proof (intro conjI impI)
  show "os_path_join p ''/model'' = ''/model''" by (rule join_model)
next
  assume "model_name s = Some mn \<and> lower mn = ''local''"
  then show "set (take 1 (from_pretrained_paths (events (load_models E s h)))) \<subseteq> {''/model''}"
    by (auto simp: load_models_unfold join_model
             split: sum.splits prod.splits option.splits if_splits)
next
  assume "tokenizer_name s = Some tn \<and> lower tn = ''local''"
  then show "set (drop 1 (from_pretrained_paths (events (load_models E s h)))) \<subseteq> {''/model''}"
    by (auto simp: load_models_unfold join_model
             split: sum.splits prod.splits option.splits if_splits)
qed

theorem load_models_local_path_witness:
  "model_name (self0\<lparr>model_name := Some ''LOCAL'', tokenizer_name := Some ''local''\<rparr>)
     = Some ''LOCAL''
   \<and> lower ''LOCAL'' = ''local''
   \<and> input_get env_ok [] = Inr ''/data/in''
   \<and> from_pretrained_paths (events (load_models env_ok
        (self0\<lparr>model_name := Some ''LOCAL'', tokenizer_name := Some ''local''\<rparr>) []))
       = [''/model'', ''/model'']"
  using load_models_local_path[of "''/data/in''"
          "self0\<lparr>model_name := Some ''LOCAL'', tokenizer_name := Some ''local''\<rparr>"
          "''LOCAL''" env_ok "[]" "''local''"]
  by (simp add: run_defs)

text \<open>
  C2. With \<open>model_name\<close> and \<open>tokenizer_name\<close> \<open>local\<close> and \<open>input.get()\<close> returning
  \<open>/data/in\<close>, both are loaded from \<open>/model\<close>, not from \<open>/data/in/model\<close>.
\<close>

theorem fine_tune_local_loads_from_root:
  "input_get env_ok [] = Inr ''/data/in''
   \<and> from_pretrained_paths (events (fine_tune env_ok args_local self0 []))
       = [''/model'', ''/model'']
   \<and> os_path_join ''/data/in'' ''model'' = ''/data/in/model''"
  by (simp add: run_defs)

subsection \<open>The metrics\<close>

text \<open>
  C3. For the predictions \<open>[[0.9,0.1],[0.2,0.8],[0.3,0.7]]\<close> and the labels \<open>[0,1,0]\<close>,
  the argmax predictions are \<open>[0,1,1]\<close> and the accuracy is \<open>2/3\<close>.
\<close>

theorem compute_metrics_example:
  "np_argmax_axis1 example_predictions = Inr [0, 1, 1] \<and>
   compute_metrics (example_predictions, [0, 1, 0]) =
     Inr [(''accuracy'', Fin (2 / 3)), (''precision'', Fin (1 / 2)), (''recall'', Fin 1),
          (''f1'', Fin (2 / 3))]"
  by (simp add: metric_defs)

text \<open>
  C7 (as amended). For every prediction matrix with two columns and every label vector
  of the same length that is not empty and holds only the labels \<open>0\<close> and \<open>1\<close>,
  \<open>compute_metrics\<close> returns the record of accuracy, precision, recall and F1 given by the
  standard formulas of binary classification on the argmax of each row, and each of the
  four lies between \<open>0\<close> and \<open>1\<close>.
\<close>

theorem compute_metrics_binary:
  assumes rows: "list_all (\<lambda>row. length row = 2) predictions"
    and len: "length labels = length predictions"
    and ne: "labels \<noteq> []"
    and bin: "set labels \<subseteq> {0, 1}"
  shows "compute_metrics (predictions, labels) =
           Inr [(''accuracy'', Fin (std_accuracy labels (map argmax_row predictions))),
                (''precision'', Fin (std_precision labels (map argmax_row predictions))),
                (''recall'', Fin (std_recall labels (map argmax_row predictions))),
                (''f1'', Fin (std_f1 labels (map argmax_row predictions)))]
         \<and> in_unit (Fin (std_accuracy labels (map argmax_row predictions)))
         \<and> in_unit (Fin (std_precision labels (map argmax_row predictions)))
         \<and> in_unit (Fin (std_recall labels (map argmax_row predictions)))
         \<and> in_unit (Fin (std_f1 labels (map argmax_row predictions)))"
proof -
  let ?ps = "map argmax_row predictions"
  have l: "length labels = length ?ps" using len by simp
  have ps: "set ?ps \<subseteq> {0, 1}" by (rule argmax_binary[OF rows])
  have acc: "accuracy_score labels ?ps = Inr (Fin (std_accuracy labels ?ps))"
    using ne len by (simp add: accuracy_score_def std_accuracy_def matches_split[OF l bin ps])
  have eq: "compute_metrics (predictions, labels) =
           Inr [(''accuracy'', Fin (std_accuracy labels ?ps)),
                (''precision'', Fin (std_precision labels ?ps)),
                (''recall'', Fin (std_recall labels ?ps)),
                (''f1'', Fin (std_f1 labels ?ps))]"
    by (simp add: compute_metrics_def bindE_def np_argmax_axis1_two[OF rows] acc
          prf_binary[OF l bin ps])
  have tot: "true_pos labels ?ps + true_neg labels ?ps + false_pos labels ?ps
             + false_neg labels ?ps = length labels"
    by (rule counts_total[OF l])
  have n: "0 < length labels" using ne by simp
  have a: "in_unit (Fin (std_accuracy labels ?ps))"
  proof -
    have "true_pos labels ?ps + true_neg labels ?ps \<le> length labels" using tot by arith
    then have "(of_nat (true_pos labels ?ps + true_neg labels ?ps) :: rat)
                 \<le> of_nat (length labels)"
      by (simp only: of_nat_le_iff)
    then show ?thesis using n
      by (simp add: in_unit_def std_accuracy_def divide_le_eq del: of_nat_add)
  qed
  have p: "in_unit (Fin (std_precision labels ?ps))"
    using prf_divide_unit[of "of_nat (true_pos labels ?ps)"
            "of_nat (true_pos labels ?ps + false_pos labels ?ps)"]
    by (simp add: in_unit_def std_precision_def)
  have r: "in_unit (Fin (std_recall labels ?ps))"
    using prf_divide_unit[of "of_nat (true_pos labels ?ps)"
            "of_nat (true_pos labels ?ps + false_neg labels ?ps)"]
    by (simp add: in_unit_def std_recall_def)
  have f: "in_unit (Fin (std_f1 labels ?ps))"
    using prf_divide_unit[of "of_nat (2 * true_pos labels ?ps)"
            "of_nat (2 * true_pos labels ?ps + false_pos labels ?ps + false_neg labels ?ps)"]
    by (simp add: in_unit_def std_f1_def)
  from eq a p r f show ?thesis by simp
qed

theorem compute_metrics_binary_witness:
  "list_all (\<lambda>row. length row = 2) example_predictions
   \<and> length [0, 1, 0 :: int] = length example_predictions
   \<and> [0, 1, 0 :: int] \<noteq> [] \<and> set [0, 1, 0 :: int] \<subseteq> {0, 1}
   \<and> compute_metrics (example_predictions, [0, 1, 0]) =
       Inr [(''accuracy'', Fin (2 / 3)), (''precision'', Fin (1 / 2)), (''recall'', Fin 1),
            (''f1'', Fin (2 / 3))]"
  using compute_metrics_binary[of example_predictions "[0, 1, 0]"]
  by (simp add: metric_defs)

text \<open>
  With a third label the targets are multiclass, and scikit-learn refuses the binary
  average: \<open>compute_metrics\<close> raises and returns no record.
\<close>

theorem compute_metrics_multiclass_raises:
  "compute_metrics (example_predictions, [0, 1, 2]) =
     Inl (value_error ''Target is multiclass but average=binary'')"
  by (simp add: metric_defs)

text \<open>Without any example the accuracy is not a number, which lies in no interval.\<close>

lemma compute_metrics_empty:
  "compute_metrics ([] :: rat list list, []) =
     Inr [(''accuracy'', NaN), (''precision'', Fin 0), (''recall'', Fin 0), (''f1'', Fin 0)]
   \<and> \<not> in_unit NaN"
  by (simp add: metric_defs)

end
